theory Spec2Isabelle
  imports Complex_Main
begin

section \<open>Data model of the review page (CinemaDetail)\<close>

text \<open>
  The component \<open>CinemaDetail\<close> keeps three kinds of documents in a document store:
  one review per (cinema, tag, author), one statistics summary per (cinema, tag) and one
  like marker per (cinema, tag, review, liker).  Every mutation runs as one transaction
  whose reads all come before its writes, so each transaction body is a function from the
  store before to the store after.  The store is assumed to commit the transaction; its
  retries and failures belong to the store and are not part of the component.

  JavaScript numbers are taken as exact: scores and sums are \<open>real\<close>, counters are
  \<open>int\<close> (a stored counter may be negative, so that \<open>Math.max(0, _)\<close> is not vacuous).
  Every field of a stored document is optional, because the store has no schema and a
  write with \<open>{ merge: true }\<close> may create a document that holds only some fields.
  \<open>serverTimestamp()\<close> is the parameter \<open>now\<close> of each operation.
\<close>

type_synonym timestamp = nat

text \<open>\<open>type ReviewForm\<close>: the editor's state \<open>myReview\<close>.\<close>

record ReviewForm =
  screen :: real
  picture :: real
  sound :: real
  seat :: real
  comment :: string

text \<open>The fields of the signed-in \<open>User\<close> that the component reads.\<close>

record User =
  uid :: string
  displayName :: "string option"
  email :: "string option"

text \<open>The props and state of the component that the three operations read.\<close>

record CinemaDetail =
  cinemaId :: string
  user :: User
  selectedTag :: "string option"
  myReview :: ReviewForm
  likeBusy :: "string \<Rightarrow> bool"

text \<open>A document under \<open>cinema/{cinemaId}/tagReviews/{tag}/reviews/{uid}\<close>.\<close>

record review_doc =
  rv_userId :: "string option"
  rv_displayName :: "string option"
  rv_screen :: "real option"
  rv_picture :: "real option"
  rv_sound :: "real option"
  rv_seat :: "real option"
  rv_overall :: "real option"
  rv_comment :: "string option"
  rv_updatedAt :: "timestamp option"
  rv_likeCount :: "int option"
  rv_createdAt :: "timestamp option"

text \<open>The document \<open>cinema/{cinemaId}/tagReviews/{tag}/stats/summary\<close>.\<close>

record stats_doc =
  st_count :: "int option"
  st_sumOverall :: "real option"
  st_avgOverall :: "real option"
  st_updatedAt :: "timestamp option"

text \<open>A document under \<open>.../reviews/{reviewId}/likes/{uid}\<close>.\<close>

record like_doc =
  lk_createdAt :: "timestamp option"

type_synonym review_ref = "string \<times> string \<times> string"
type_synonym stats_ref = "string \<times> string"
type_synonym like_ref = "string \<times> string \<times> string \<times> string"

record Store =
  reviews :: "review_ref \<rightharpoonup> review_doc"
  stats :: "stats_ref \<rightharpoonup> stats_doc"
  likes :: "like_ref \<rightharpoonup> like_doc"

definition empty_store :: Store where
  "empty_store = \<lparr>reviews = Map.empty, stats = Map.empty, likes = Map.empty\<rparr>"

subsection \<open>Writes with \<open>{ merge: true }\<close>\<close>

text \<open>A field of the written data replaces the stored one; a field it lacks is kept.\<close>

definition orElse :: "'a option \<Rightarrow> 'a option \<Rightarrow> 'a option" where
  "orElse new old = (case new of Some v \<Rightarrow> Some v | None \<Rightarrow> old)"

definition merge_review :: "review_doc \<Rightarrow> review_doc \<Rightarrow> review_doc" where
  "merge_review old new =
     \<lparr>rv_userId = orElse (rv_userId new) (rv_userId old),
      rv_displayName = orElse (rv_displayName new) (rv_displayName old),
      rv_screen = orElse (rv_screen new) (rv_screen old),
      rv_picture = orElse (rv_picture new) (rv_picture old),
      rv_sound = orElse (rv_sound new) (rv_sound old),
      rv_seat = orElse (rv_seat new) (rv_seat old),
      rv_overall = orElse (rv_overall new) (rv_overall old),
      rv_comment = orElse (rv_comment new) (rv_comment old),
      rv_updatedAt = orElse (rv_updatedAt new) (rv_updatedAt old),
      rv_likeCount = orElse (rv_likeCount new) (rv_likeCount old),
      rv_createdAt = orElse (rv_createdAt new) (rv_createdAt old)\<rparr>"

definition merge_stats :: "stats_doc \<Rightarrow> stats_doc \<Rightarrow> stats_doc" where
  "merge_stats old new =
     \<lparr>st_count = orElse (st_count new) (st_count old),
      st_sumOverall = orElse (st_sumOverall new) (st_sumOverall old),
      st_avgOverall = orElse (st_avgOverall new) (st_avgOverall old),
      st_updatedAt = orElse (st_updatedAt new) (st_updatedAt old)\<rparr>"

definition merge_like :: "like_doc \<Rightarrow> like_doc \<Rightarrow> like_doc" where
  "merge_like old new = \<lparr>lk_createdAt = orElse (lk_createdAt new) (lk_createdAt old)\<rparr>"

definition set_review :: "review_ref \<Rightarrow> review_doc \<Rightarrow> Store \<Rightarrow> Store" where
  "set_review r d s =
     s\<lparr>reviews := (reviews s)(r \<mapsto>
          (case reviews s r of None \<Rightarrow> d | Some old \<Rightarrow> merge_review old d))\<rparr>"

definition set_stats :: "stats_ref \<Rightarrow> stats_doc \<Rightarrow> Store \<Rightarrow> Store" where
  "set_stats r d s =
     s\<lparr>stats := (stats s)(r \<mapsto>
          (case stats s r of None \<Rightarrow> d | Some old \<Rightarrow> merge_stats old d))\<rparr>"

definition set_like :: "like_ref \<Rightarrow> like_doc \<Rightarrow> Store \<Rightarrow> Store" where
  "set_like r d s =
     s\<lparr>likes := (likes s)(r \<mapsto>
          (case likes s r of None \<Rightarrow> d | Some old \<Rightarrow> merge_like old d))\<rparr>"

definition delete_review :: "review_ref \<Rightarrow> Store \<Rightarrow> Store" where
  "delete_review r s = s\<lparr>reviews := (reviews s)(r := None)\<rparr>"

definition delete_like :: "like_ref \<Rightarrow> Store \<Rightarrow> Store" where
  "delete_like r s = s\<lparr>likes := (likes s)(r := None)\<rparr>"

text \<open>A review or stats document in which no field is set, to be filled by an update.\<close>

definition no_review_fields :: review_doc where
  "no_review_fields =
     \<lparr>rv_userId = None, rv_displayName = None, rv_screen = None, rv_picture = None,
      rv_sound = None, rv_seat = None, rv_overall = None, rv_comment = None,
      rv_updatedAt = None, rv_likeCount = None, rv_createdAt = None\<rparr>"

definition no_stats_fields :: stats_doc where
  "no_stats_fields =
     \<lparr>st_count = None, st_sumOverall = None, st_avgOverall = None, st_updatedAt = None\<rparr>"

subsection \<open>Reading numbers\<close>

text \<open>\<open>Number(x ?? 0)\<close> on a field that holds a number or is absent.\<close>

definition number_or_0 :: "real option \<Rightarrow> real" where
  "number_or_0 x = (case x of None \<Rightarrow> 0 | Some v \<Rightarrow> v)"

definition counter_or_0 :: "int option \<Rightarrow> int" where
  "counter_or_0 x = (case x of None \<Rightarrow> 0 | Some v \<Rightarrow> v)"

text \<open>
  The previous overall of a stored review, as both \<open>saveMyReview\<close> and
  \<open>deleteMyReview\<close> compute it: the stored \<open>overall\<close>, or the mean of the stored
  sub-scores when the document has no \<open>overall\<close>.
\<close>

definition oldOverallOf :: "review_doc \<Rightarrow> real" where
  "oldOverallOf prev =
     (case rv_overall prev of
        Some v \<Rightarrow> v
      | None \<Rightarrow>
          (number_or_0 (rv_screen prev) + number_or_0 (rv_picture prev) +
           number_or_0 (rv_sound prev) + number_or_0 (rv_seat prev)) / 4)"

definition newOverallOf :: "ReviewForm \<Rightarrow> real" where
  "newOverallOf f = (screen f + picture f + sound f + seat f) / 4"

definition average :: "int \<Rightarrow> real \<Rightarrow> real" where
  "average count sumOverall = (if count = 0 then 0 else sumOverall / real_of_int count)"

text \<open>The stats snapshot: \<open>{ count: 0, sumOverall: 0 }\<close> when the document is absent.\<close>

definition stats_snapshot :: "stats_doc option \<Rightarrow> stats_doc" where
  "stats_snapshot statsSnap =
     (case statsSnap of
        Some d \<Rightarrow> d
      | None \<Rightarrow> no_stats_fields\<lparr>st_count := Some 0, st_sumOverall := Some 0\<rparr>)"

section \<open>The three operations\<close>

subsection \<open>\<open>saveMyReview\<close>\<close>

definition saveMyReview_tx ::
  "string \<Rightarrow> string \<Rightarrow> User \<Rightarrow> ReviewForm \<Rightarrow> timestamp \<Rightarrow> Store \<Rightarrow> Store" where
  "saveMyReview_tx cid tag u form now s =
     (let reviewRef = (cid, tag, uid u);
          statsRef = (cid, tag);
          newOverall = newOverallOf form;
          reviewSnap = reviews s reviewRef;
          statsSnap = stats s statsRef;
          oldOverall = (case reviewSnap of None \<Rightarrow> None | Some prev \<Rightarrow> Some (oldOverallOf prev));
          existingLikeCount =
            (case reviewSnap of None \<Rightarrow> 0 | Some prev \<Rightarrow> counter_or_0 (rv_likeCount prev));
          baseReview =
            \<lparr>rv_userId = Some (uid u),
             rv_displayName =
               Some (case displayName u of
                       Some n \<Rightarrow> n
                     | None \<Rightarrow> (case email u of Some e \<Rightarrow> e | None \<Rightarrow> [])),
             rv_screen = Some (screen form),
             rv_picture = Some (picture form),
             rv_sound = Some (sound form),
             rv_seat = Some (seat form),
             rv_overall = Some newOverall,
             rv_comment = Some (comment form),
             rv_updatedAt = Some now,
             rv_likeCount = Some existingLikeCount,
             rv_createdAt = None\<rparr>;
          s1 = (case reviewSnap of
                  None \<Rightarrow>
                    set_review reviewRef
                      (baseReview\<lparr>rv_likeCount := Some 0, rv_createdAt := Some now\<rparr>) s
                | Some prev \<Rightarrow> set_review reviewRef baseReview s);
          st = stats_snapshot statsSnap;
          count0 = counter_or_0 (st_count st);
          sumOverall0 = number_or_0 (st_sumOverall st);
          count = (case oldOverall of None \<Rightarrow> count0 + 1 | Some old \<Rightarrow> count0);
          sumOverall =
            (case oldOverall of
               None \<Rightarrow> sumOverall0 + newOverall
             | Some old \<Rightarrow> sumOverall0 + (newOverall - old));
          avgOverall = average count sumOverall
      in set_stats statsRef
           \<lparr>st_count = Some count, st_sumOverall = Some sumOverall,
            st_avgOverall = Some avgOverall, st_updatedAt = Some now\<rparr> s1)"

text \<open>
  The handler returns at once when \<open>selectedTag\<close> is falsy, that is \<open>null\<close> or the
  empty string; otherwise it runs the transaction.  Below, "a tag is selected" means that
  \<open>selectedTag\<close> is a string that is not empty.
\<close>

definition saveMyReview :: "CinemaDetail \<Rightarrow> timestamp \<Rightarrow> Store \<Rightarrow> Store" where
  "saveMyReview c now s =
     (case selectedTag c of
        None \<Rightarrow> s
      | Some tag \<Rightarrow>
          if tag = [] then s
          else saveMyReview_tx (cinemaId c) tag (user c) (myReview c) now s)"

subsection \<open>\<open>deleteMyReview\<close>\<close>

definition deleteMyReview_tx :: "string \<Rightarrow> string \<Rightarrow> User \<Rightarrow> timestamp \<Rightarrow> Store \<Rightarrow> Store" where
  "deleteMyReview_tx cid tag u now s =
     (let reviewRef = (cid, tag, uid u);
          statsRef = (cid, tag)
      in case reviews s reviewRef of
           None \<Rightarrow> s
         | Some prev \<Rightarrow>
             (let oldOverall = oldOverallOf prev;
                  st = stats_snapshot (stats s statsRef);
                  count0 = counter_or_0 (st_count st);
                  sumOverall0 = number_or_0 (st_sumOverall st);
                  s1 = delete_review reviewRef s;
                  count = max 0 (count0 - 1);
                  sumOverall1 = sumOverall0 - oldOverall;
                  sumOverall = (if count = 0 then 0 else sumOverall1);
                  avgOverall = average count sumOverall
              in set_stats statsRef
                   \<lparr>st_count = Some count, st_sumOverall = Some sumOverall,
                    st_avgOverall = Some avgOverall, st_updatedAt = Some now\<rparr> s1))"

definition deleteMyReview :: "CinemaDetail \<Rightarrow> timestamp \<Rightarrow> Store \<Rightarrow> Store" where
  "deleteMyReview c now s =
     (case selectedTag c of
        None \<Rightarrow> s
      | Some tag \<Rightarrow>
          if tag = [] then s
          else deleteMyReview_tx (cinemaId c) tag (user c) now s)"

subsection \<open>\<open>toggleLike\<close>\<close>

definition toggleLike_tx ::
  "string \<Rightarrow> string \<Rightarrow> User \<Rightarrow> string \<Rightarrow> timestamp \<Rightarrow> Store \<Rightarrow> Store" where
  "toggleLike_tx cid tag u reviewId now s =
     (let reviewRef = (cid, tag, reviewId);
          likeRef = (cid, tag, reviewId, uid u);
          likeSnap = likes s likeRef;
          reviewSnap = reviews s reviewRef;
          currentLike =
            (case reviewSnap of None \<Rightarrow> 0 | Some d \<Rightarrow> counter_or_0 (rv_likeCount d))
      in case likeSnap of
           Some l \<Rightarrow>
             (let nextLike = max 0 (currentLike - 1)
              in set_review reviewRef (no_review_fields\<lparr>rv_likeCount := Some nextLike\<rparr>)
                   (delete_like likeRef s))
         | None \<Rightarrow>
             (let nextLike = currentLike + 1
              in set_review reviewRef (no_review_fields\<lparr>rv_likeCount := Some nextLike\<rparr>)
                   (set_like likeRef \<lparr>lk_createdAt = Some now\<rparr> s)))"

text \<open>
  The handler returns at once when \<open>selectedTag\<close> is falsy or when a toggle of the same
  review is still in flight.
\<close>

definition toggleLike :: "CinemaDetail \<Rightarrow> string \<Rightarrow> timestamp \<Rightarrow> Store \<Rightarrow> Store" where
  "toggleLike c reviewId now s =
     (case selectedTag c of
        None \<Rightarrow> s
      | Some tag \<Rightarrow>
          if tag = [] then s
          else if likeBusy c reviewId then s
          else toggleLike_tx (cinemaId c) tag (user c) reviewId now s)"

section \<open>Reading the store\<close>

text \<open>
  What a reader of the store finds: the stored field when the document and the field
  exist, and the value the operations themselves take for it (an absent counter or sum
  is 0).
\<close>

definition stored_count :: "Store \<Rightarrow> stats_ref \<Rightarrow> int option" where
  "stored_count s r = (case stats s r of None \<Rightarrow> None | Some d \<Rightarrow> st_count d)"

definition stored_sumOverall :: "Store \<Rightarrow> stats_ref \<Rightarrow> real option" where
  "stored_sumOverall s r = (case stats s r of None \<Rightarrow> None | Some d \<Rightarrow> st_sumOverall d)"

definition stored_avgOverall :: "Store \<Rightarrow> stats_ref \<Rightarrow> real option" where
  "stored_avgOverall s r = (case stats s r of None \<Rightarrow> None | Some d \<Rightarrow> st_avgOverall d)"

definition stored_likeCount :: "Store \<Rightarrow> review_ref \<Rightarrow> int option" where
  "stored_likeCount s r = (case reviews s r of None \<Rightarrow> None | Some d \<Rightarrow> rv_likeCount d)"

definition stored_overall :: "Store \<Rightarrow> review_ref \<Rightarrow> real option" where
  "stored_overall s r = (case reviews s r of None \<Rightarrow> None | Some d \<Rightarrow> rv_overall d)"

definition count_of :: "Store \<Rightarrow> stats_ref \<Rightarrow> int" where
  "count_of s r = (case stored_count s r of None \<Rightarrow> 0 | Some n \<Rightarrow> n)"

definition sumOverall_of :: "Store \<Rightarrow> stats_ref \<Rightarrow> real" where
  "sumOverall_of s r = (case stored_sumOverall s r of None \<Rightarrow> 0 | Some x \<Rightarrow> x)"

definition avgOverall_of :: "Store \<Rightarrow> stats_ref \<Rightarrow> real" where
  "avgOverall_of s r = (case stored_avgOverall s r of None \<Rightarrow> 0 | Some x \<Rightarrow> x)"

definition likeCount_of :: "Store \<Rightarrow> review_ref \<Rightarrow> int" where
  "likeCount_of s r = (case stored_likeCount s r of None \<Rightarrow> 0 | Some n \<Rightarrow> n)"

definition overall_of :: "Store \<Rightarrow> review_ref \<Rightarrow> real" where
  "overall_of s r = (case stored_overall s r of None \<Rightarrow> 0 | Some x \<Rightarrow> x)"

section \<open>Sequences of operations\<close>

text \<open>
  A user action is one call of a handler, with the component's props and state at the
  time of the call and the server's time.  A sequence of actions runs them one after the
  other, each on the store that the one before left.
\<close>

datatype op =
    Save CinemaDetail timestamp
  | Delete CinemaDetail timestamp
  | Like CinemaDetail string timestamp

fun apply_op :: "op \<Rightarrow> Store \<Rightarrow> Store" where
  "apply_op (Save c now) s = saveMyReview c now s"
| "apply_op (Delete c now) s = deleteMyReview c now s"
| "apply_op (Like c reviewId now) s = toggleLike c reviewId now s"

fun run :: "op list \<Rightarrow> Store \<Rightarrow> Store" where
  "run [] s = s"
| "run (x # xs) s = run xs (apply_op x s)"

text \<open>Every like counter and every review count, as read, is at least 0.\<close>

definition counters_nonneg :: "Store \<Rightarrow> bool" where
  "counters_nonneg s \<longleftrightarrow> (\<forall>r. 0 \<le> likeCount_of s r) \<and> (\<forall>k. 0 \<le> count_of s k)"

text \<open>The authors who have a review under (cinema, tag).\<close>

definition live_authors :: "Store \<Rightarrow> string \<Rightarrow> string \<Rightarrow> string set" where
  "live_authors s cid tag = {u. reviews s (cid, tag, u) \<noteq> None}"

text \<open>
  The stats document of (cinema, tag) agrees with the reviews under it: the count is the
  number of reviews, the sum is the sum of their stored overall values (exactly, hence
  within \<open>1e-9\<close>), and the average is 0 for count 0 and sum / count otherwise.
\<close>

definition aggregate_consistent :: "Store \<Rightarrow> string \<Rightarrow> string \<Rightarrow> bool" where
  "aggregate_consistent s cid tag \<longleftrightarrow>
     finite (live_authors s cid tag) \<and>
     count_of s (cid, tag) = int (card (live_authors s cid tag)) \<and>
     sumOverall_of s (cid, tag) = (\<Sum>u\<in>live_authors s cid tag. overall_of s (cid, tag, u)) \<and>
     \<bar>sumOverall_of s (cid, tag) - (\<Sum>u\<in>live_authors s cid tag. overall_of s (cid, tag, u))\<bar>
       \<le> 1 / 10 ^ 9 \<and>
     avgOverall_of s (cid, tag) =
       (if count_of s (cid, tag) = 0 then 0
        else sumOverall_of s (cid, tag) / real_of_int (count_of s (cid, tag)))"

text \<open>Every review under (cinema, tag) has its \<open>overall\<close> stored.\<close>

definition overall_stored :: "Store \<Rightarrow> string \<Rightarrow> string \<Rightarrow> bool" where
  "overall_stored s cid tag \<longleftrightarrow>
     (\<forall>u d. reviews s (cid, tag, u) = Some d \<longrightarrow> rv_overall d \<noteq> None)"

text \<open>A save or a delete made with the given cinema and tag selected.\<close>

fun review_op_under :: "string \<Rightarrow> string \<Rightarrow> op \<Rightarrow> bool" where
  "review_op_under cid tag (Save c now) \<longleftrightarrow> cinemaId c = cid \<and> selectedTag c = Some tag"
| "review_op_under cid tag (Delete c now) \<longleftrightarrow> cinemaId c = cid \<and> selectedTag c = Some tag"
| "review_op_under cid tag (Like c reviewId now) \<longleftrightarrow> False"

section \<open>Concrete pages and stores\<close>

definition scores :: "real \<Rightarrow> real \<Rightarrow> real \<Rightarrow> real \<Rightarrow> ReviewForm" where
  "scores a b c d = \<lparr>screen = a, picture = b, sound = c, seat = d, comment = []\<rparr>"

definition viewer :: "string \<Rightarrow> User" where
  "viewer n = \<lparr>uid = n, displayName = None, email = None\<rparr>"

text \<open>The page of cinema \<open>S\<close> with tag \<open>T\<close> selected, seen by user \<open>n\<close> with form \<open>f\<close>.\<close>

definition page :: "string \<Rightarrow> ReviewForm \<Rightarrow> CinemaDetail" where
  "page n f =
     \<lparr>cinemaId = ''S'', user = viewer n, selectedTag = Some ''T'', myReview = f,
      likeBusy = (\<lambda>r. False)\<rparr>"

text \<open>A review written before \<open>overall\<close> was stored, with two of its sub-scores missing.\<close>

definition legacy_review :: review_doc where
  "legacy_review = no_review_fields\<lparr>rv_screen := Some 4, rv_sound := Some 2\<rparr>"

definition legacy_store :: Store where
  "legacy_store =
     \<lparr>reviews = [(''S'', ''T'', ''A'') \<mapsto> legacy_review],
      stats = [(''S'', ''T'') \<mapsto> no_stats_fields\<lparr>st_count := Some 2, st_sumOverall := Some 5\<rparr>],
      likes = Map.empty\<rparr>"

text \<open>User \<open>A\<close> has a review with scores 5, and user \<open>B\<close> has liked it.\<close>

definition liked_store :: Store where
  "liked_store = toggleLike (page ''B'' (scores 0 0 0 0)) ''A'' 2
      (saveMyReview (page ''A'' (scores 5 5 5 5)) 1 empty_store)"

text \<open>Then \<open>A\<close> deletes the review: \<open>B\<close>'s like record stays behind, under no review.\<close>

definition orphan_like_store :: Store where
  "orphan_like_store = deleteMyReview (page ''A'' (scores 0 0 0 0)) 3 liked_store"

text \<open>Then \<open>A\<close> writes a review again: it starts at \<open>likeCount\<close> 0 beside \<open>B\<close>'s record.\<close>

definition recreated_store :: Store where
  "recreated_store = saveMyReview (page ''A'' (scores 4 4 4 4)) 4 orphan_like_store"

text \<open>
  In the store where \<open>B\<close>'s like record stands under no review, \<open>B\<close> toggles the
  like.
\<close>

definition stub_store :: Store where
  "stub_store = toggleLike (page ''B'' (scores 0 0 0 0)) ''A'' 4 orphan_like_store"

text \<open>\<open>A\<close> has a review with scores 5 and \<open>B\<close> one with scores 3.\<close>

definition two_reviews_store :: Store where
  "two_reviews_store =
     saveMyReview (page ''B'' (scores 3 3 3 3)) 2
       (saveMyReview (page ''A'' (scores 5 5 5 5)) 1 empty_store)"

text \<open>A stored review whose \<open>likeCount\<close> is negative.\<close>

definition negative_like_store :: Store where
  "negative_like_store =
     \<lparr>reviews = [(''S'', ''T'', ''A'') \<mapsto> no_review_fields\<lparr>rv_likeCount := Some (- 1)\<rparr>],
      stats = Map.empty, likes = Map.empty\<rparr>"

text \<open>
  Deleting and unliking what is not there, a save, a delete made twice, and likes on the
  deleted review.
\<close>

definition restless_ops :: "op list" where
  "restless_ops =
     [Delete (page ''A'' (scores 0 0 0 0)) 1,
      Like (page ''B'' (scores 0 0 0 0)) ''A'' 2,
      Like (page ''B'' (scores 0 0 0 0)) ''A'' 3,
      Save (page ''A'' (scores 5 5 5 5)) 4,
      Delete (page ''A'' (scores 0 0 0 0)) 5,
      Delete (page ''A'' (scores 0 0 0 0)) 6,
      Like (page ''B'' (scores 0 0 0 0)) ''A'' 7,
      Like (page ''B'' (scores 0 0 0 0)) ''A'' 8]"

text \<open>
  The life of an aggregate: \<open>A\<close> submits 5s, \<open>B\<close> submits 0s, \<open>A\<close> edits to 4s,
  \<open>B\<close> deletes.
\<close>

definition aggregate_lifecycle :: "op list" where
  "aggregate_lifecycle =
     [Save (page ''A'' (scores 5 5 5 5)) 1,
      Save (page ''B'' (scores 0 0 0 0)) 2,
      Save (page ''A'' (scores 4 4 4 4)) 3,
      Delete (page ''B'' (scores 0 0 0 0)) 4]"

text \<open>
  The data model's words for a sub-score: a number in [0,5] at 0.5 granularity.  No
  function of the component computes this; it is here to name the inputs that the range
  inputs of the editor cannot produce.
\<close>

definition spec_valid_score :: "real \<Rightarrow> bool" where
  "spec_valid_score x \<longleftrightarrow> 0 \<le> x \<and> x \<le> 5 \<and> 2 * x \<in> \<int>"

section \<open>Unfolding the model\<close>

lemmas readers =
  stored_count_def stored_sumOverall_def stored_avgOverall_def stored_likeCount_def
  stored_overall_def count_of_def sumOverall_of_def likeCount_of_def

lemmas tx_defs =
  saveMyReview_def saveMyReview_tx_def deleteMyReview_def deleteMyReview_tx_def
  toggleLike_def toggleLike_tx_def set_review_def set_stats_def set_like_def
  delete_review_def delete_like_def stats_snapshot_def no_stats_fields_def
  no_review_fields_def counter_or_0_def number_or_0_def merge_review_def merge_stats_def
  merge_like_def orElse_def

lemmas ex_defs =
  scores_def viewer_def page_def empty_store_def

section \<open>The statistics delta of a save\<close>

text \<open>
  Claim C3.  When a tag is selected, saving a review that did not exist writes
  \<open>count + 1\<close> and \<open>sumOverall + newOverall\<close>, where \<open>newOverall\<close> is the mean of
  the four submitted sub-scores; saving over an existing review writes the count as read
  and \<open>sumOverall + (newOverall - oldOverall)\<close>, where \<open>oldOverall\<close> is the overall
  stored in the existing review (the mean of its stored sub-scores when it stores none).
  The count and sum read from an absent stats document are 0, so the first save under a
  key writes count 1 and the new overall as the sum.
\<close>

theorem saveMyReview_stats_delta:
  assumes "selectedTag c = Some tag"
    and "tag \<noteq> []"
  shows "(case reviews s (cinemaId c, tag, uid (user c)) of
            None \<Rightarrow>
              stored_count (saveMyReview c now s) (cinemaId c, tag) =
                Some (count_of s (cinemaId c, tag) + 1) \<and>
              stored_sumOverall (saveMyReview c now s) (cinemaId c, tag) =
                Some (sumOverall_of s (cinemaId c, tag) +
                      (screen (myReview c) + picture (myReview c) + sound (myReview c) +
                       seat (myReview c)) / 4)
          | Some prev \<Rightarrow>
              stored_count (saveMyReview c now s) (cinemaId c, tag) =
                Some (count_of s (cinemaId c, tag)) \<and>
              stored_sumOverall (saveMyReview c now s) (cinemaId c, tag) =
                Some (sumOverall_of s (cinemaId c, tag) +
                      ((screen (myReview c) + picture (myReview c) + sound (myReview c) +
                        seat (myReview c)) / 4 -
                       (case rv_overall prev of
                          Some old \<Rightarrow> old
                        | None \<Rightarrow>
                            (number_or_0 (rv_screen prev) + number_or_0 (rv_picture prev) +
                             number_or_0 (rv_sound prev) + number_or_0 (rv_seat prev)) / 4)))) \<and>
         (stats s (cinemaId c, tag) = None \<longrightarrow>
            (case reviews s (cinemaId c, tag, uid (user c)) of
               None \<Rightarrow>
                 stored_count (saveMyReview c now s) (cinemaId c, tag) = Some 1 \<and>
                 stored_sumOverall (saveMyReview c now s) (cinemaId c, tag) =
                   Some (0 + (screen (myReview c) + picture (myReview c) + sound (myReview c) +
                              seat (myReview c)) / 4)
             | Some prev \<Rightarrow>
                 stored_count (saveMyReview c now s) (cinemaId c, tag) = Some 0 \<and>
                 stored_sumOverall (saveMyReview c now s) (cinemaId c, tag) =
                   Some (0 + ((screen (myReview c) + picture (myReview c) + sound (myReview c) +
                               seat (myReview c)) / 4 -
                              (case rv_overall prev of
                                 Some old \<Rightarrow> old
                               | None \<Rightarrow>
                                   (number_or_0 (rv_screen prev) + number_or_0 (rv_picture prev) +
                                    number_or_0 (rv_sound prev) + number_or_0 (rv_seat prev)) / 4)))))"
  using assms
  by (simp add: tx_defs readers newOverallOf_def oldOverallOf_def Let_def split: option.splits)

theorem saveMyReview_stats_delta_witness:
  "selectedTag (page ''A'' (scores 5 5 5 5)) = Some ''T'' \<and>
   ''T'' \<noteq> [] \<and>
   stats empty_store (''S'', ''T'') = None \<and>
   stored_count (saveMyReview (page ''A'' (scores 5 5 5 5)) 1 empty_store) (''S'', ''T'') =
     Some 1 \<and>
   stored_sumOverall (saveMyReview (page ''A'' (scores 5 5 5 5)) 1 empty_store) (''S'', ''T'') =
     Some 5 \<and>
   stored_overall two_reviews_store (''S'', ''T'', ''B'') = Some 3 \<and>
   stored_count two_reviews_store (''S'', ''T'') = Some 2 \<and>
   stored_sumOverall two_reviews_store (''S'', ''T'') = Some 8 \<and>
   stored_count (saveMyReview (page ''B'' (scores 4 5 5 5)) 3 two_reviews_store) (''S'', ''T'') =
     Some 2 \<and>
   stored_sumOverall (saveMyReview (page ''B'' (scores 4 5 5 5)) 3 two_reviews_store) (''S'', ''T'') =
     Some (8 + (19 / 4 - 3)) \<and>
   stored_count (saveMyReview (page ''A'' (scores 3 4 4 5)) 2 legacy_store) (''S'', ''T'') =
     Some 2 \<and>
   stored_sumOverall (saveMyReview (page ''A'' (scores 3 4 4 5)) 2 legacy_store) (''S'', ''T'') =
     Some (15 / 2)"
proof -
  have two:
    "reviews two_reviews_store (''S'', ''T'', ''B'') =
       Some \<lparr>rv_userId = Some ''B'', rv_displayName = Some [], rv_screen = Some 3,
             rv_picture = Some 3, rv_sound = Some 3, rv_seat = Some 3, rv_overall = Some 3,
             rv_comment = Some [], rv_updatedAt = Some 2, rv_likeCount = Some 0,
             rv_createdAt = Some 2\<rparr>"
    "stats two_reviews_store (''S'', ''T'') =
       Some \<lparr>st_count = Some 2, st_sumOverall = Some 8, st_avgOverall = Some 4,
             st_updatedAt = Some 2\<rparr>"
    by (simp_all add: two_reviews_store_def ex_defs tx_defs newOverallOf_def average_def Let_def)
  show ?thesis
    using two
      saveMyReview_stats_delta
        [where c = "page ''A'' (scores 5 5 5 5)" and tag = "''T''" and s = empty_store and now = 1]
      saveMyReview_stats_delta
        [where c = "page ''B'' (scores 4 5 5 5)" and tag = "''T''" and s = two_reviews_store
           and now = 3]
      saveMyReview_stats_delta
        [where c = "page ''A'' (scores 3 4 4 5)" and tag = "''T''" and s = legacy_store and now = 2]
    by (simp add: ex_defs legacy_store_def legacy_review_def readers number_or_0_def
        no_review_fields_def no_stats_fields_def)
qed

section \<open>The statistics update of a delete\<close>

text \<open>
  Claim C4.  When a tag is selected and the user's review exists, deleting it writes
  \<open>count = max(0, count - 1)\<close> and \<open>sumOverall - oldOverall\<close>, where
  \<open>oldOverall\<close> is the overall stored in the deleted review (the mean of its stored
  sub-scores when it stores none), with the sum forced to exactly 0 when the new count is
  0; the stored average is 0 for count 0 and \<open>sumOverall / count\<close> otherwise, over the
  values just written.  The review document is gone.
\<close>

theorem deleteMyReview_stats_update:
  assumes "selectedTag c = Some tag"
    and "tag \<noteq> []"
    and "reviews s (cinemaId c, tag, uid (user c)) = Some prev"
  shows "stored_count (deleteMyReview c now s) (cinemaId c, tag) =
           Some (max 0 (count_of s (cinemaId c, tag) - 1)) \<and>
         stored_sumOverall (deleteMyReview c now s) (cinemaId c, tag) =
           Some (if max 0 (count_of s (cinemaId c, tag) - 1) = 0 then 0
                 else sumOverall_of s (cinemaId c, tag) -
                      (case rv_overall prev of
                         Some old \<Rightarrow> old
                       | None \<Rightarrow>
                           (number_or_0 (rv_screen prev) + number_or_0 (rv_picture prev) +
                            number_or_0 (rv_sound prev) + number_or_0 (rv_seat prev)) / 4)) \<and>
         stored_avgOverall (deleteMyReview c now s) (cinemaId c, tag) =
           Some (if count_of (deleteMyReview c now s) (cinemaId c, tag) = 0 then 0
                 else sumOverall_of (deleteMyReview c now s) (cinemaId c, tag) /
                      real_of_int (count_of (deleteMyReview c now s) (cinemaId c, tag))) \<and>
         reviews (deleteMyReview c now s) (cinemaId c, tag, uid (user c)) = None"
  using assms
  by (simp add: tx_defs readers average_def oldOverallOf_def Let_def split: option.splits)

theorem deleteMyReview_stats_update_witness:
  "selectedTag (page ''B'' (scores 0 0 0 0)) = Some ''T'' \<and>
   ''T'' \<noteq> [] \<and>
   stored_overall two_reviews_store (''S'', ''T'', ''B'') = Some 3 \<and>
   stored_count two_reviews_store (''S'', ''T'') = Some 2 \<and>
   stored_sumOverall two_reviews_store (''S'', ''T'') = Some 8 \<and>
   stored_count (deleteMyReview (page ''B'' (scores 0 0 0 0)) 3 two_reviews_store) (''S'', ''T'') =
     Some 1 \<and>
   stored_sumOverall (deleteMyReview (page ''B'' (scores 0 0 0 0)) 3 two_reviews_store) (''S'', ''T'') =
     Some 5 \<and>
   stored_avgOverall (deleteMyReview (page ''B'' (scores 0 0 0 0)) 3 two_reviews_store) (''S'', ''T'') =
     Some 5 \<and>
   reviews legacy_store (''S'', ''T'', ''A'') = Some legacy_review \<and>
   stored_count (deleteMyReview (page ''A'' (scores 0 0 0 0)) 3 legacy_store) (''S'', ''T'') =
     Some 1 \<and>
   stored_sumOverall (deleteMyReview (page ''A'' (scores 0 0 0 0)) 3 legacy_store) (''S'', ''T'') =
     Some (7 / 2) \<and>
   stored_avgOverall (deleteMyReview (page ''A'' (scores 0 0 0 0)) 3 legacy_store) (''S'', ''T'') =
     Some (7 / 2)"
proof -
  have two:
    "reviews two_reviews_store (''S'', ''T'', ''B'') =
       Some \<lparr>rv_userId = Some ''B'', rv_displayName = Some [], rv_screen = Some 3,
             rv_picture = Some 3, rv_sound = Some 3, rv_seat = Some 3, rv_overall = Some 3,
             rv_comment = Some [], rv_updatedAt = Some 2, rv_likeCount = Some 0,
             rv_createdAt = Some 2\<rparr>"
    "stats two_reviews_store (''S'', ''T'') =
       Some \<lparr>st_count = Some 2, st_sumOverall = Some 8, st_avgOverall = Some 4,
             st_updatedAt = Some 2\<rparr>"
    by (simp_all add: two_reviews_store_def ex_defs tx_defs newOverallOf_def average_def Let_def)
  show ?thesis
    using two
      deleteMyReview_stats_update
        [where c = "page ''B'' (scores 0 0 0 0)" and tag = "''T''" and s = two_reviews_store
           and now = 3
           and prev = "\<lparr>rv_userId = Some ''B'', rv_displayName = Some [], rv_screen = Some 3,
             rv_picture = Some 3, rv_sound = Some 3, rv_seat = Some 3, rv_overall = Some 3,
             rv_comment = Some [], rv_updatedAt = Some 2, rv_likeCount = Some 0,
             rv_createdAt = Some 2\<rparr>"]
      deleteMyReview_stats_update
        [where c = "page ''A'' (scores 0 0 0 0)" and tag = "''T''" and s = legacy_store
           and prev = legacy_review and now = 3]
    by (simp add: ex_defs legacy_store_def legacy_review_def readers number_or_0_def
        no_review_fields_def no_stats_fields_def)
qed

section \<open>The stored review\<close>

text \<open>
  Claim C7.  When a tag is selected, the review stored by a save holds the four submitted
  sub-scores and, as \<open>overall\<close>, their arithmetic mean
  \<open>(screen + picture + sound + seat) / 4\<close>, with \<open>updatedAt\<close> set to the time of the
  save.  If no review existed under the key, the stored \<open>likeCount\<close> is 0 and
  \<open>createdAt\<close> is the time of the save; if one existed, the stored \<open>likeCount\<close> is
  the one it had (0 when it had none) and \<open>createdAt\<close> is kept.
\<close>

theorem saveMyReview_stored_review:
  assumes "selectedTag c = Some tag"
    and "tag \<noteq> []"
  shows "\<exists>d. reviews (saveMyReview c now s) (cinemaId c, tag, uid (user c)) = Some d \<and>
           rv_overall d =
             Some ((screen (myReview c) + picture (myReview c) + sound (myReview c) +
                    seat (myReview c)) / 4) \<and>
           rv_screen d = Some (screen (myReview c)) \<and>
           rv_picture d = Some (picture (myReview c)) \<and>
           rv_sound d = Some (sound (myReview c)) \<and>
           rv_seat d = Some (seat (myReview c)) \<and>
           rv_updatedAt d = Some now \<and>
           (case reviews s (cinemaId c, tag, uid (user c)) of
              None \<Rightarrow> rv_likeCount d = Some 0 \<and> rv_createdAt d = Some now
            | Some prev \<Rightarrow>
                rv_likeCount d = Some (likeCount_of s (cinemaId c, tag, uid (user c))) \<and>
                rv_createdAt d = rv_createdAt prev)"
  using assms
  by (simp add: tx_defs readers newOverallOf_def Let_def split: option.splits)

theorem saveMyReview_stored_review_witness:
  "selectedTag (page ''A'' (scores 4 4 4 4)) = Some ''T'' \<and>
   ''T'' \<noteq> [] \<and>
   reviews (saveMyReview (page ''A'' (scores 5 4 3 2)) 1 empty_store) (''S'', ''T'', ''A'') =
     Some \<lparr>rv_userId = Some ''A'', rv_displayName = Some [], rv_screen = Some 5,
           rv_picture = Some 4, rv_sound = Some 3, rv_seat = Some 2, rv_overall = Some (7 / 2),
           rv_comment = Some [], rv_updatedAt = Some 1, rv_likeCount = Some 0,
           rv_createdAt = Some 1\<rparr> \<and>
   reviews (saveMyReview (page ''A'' (scores 4 4 4 4)) 7 liked_store) (''S'', ''T'', ''A'') =
     Some \<lparr>rv_userId = Some ''A'', rv_displayName = Some [], rv_screen = Some 4,
           rv_picture = Some 4, rv_sound = Some 4, rv_seat = Some 4, rv_overall = Some 4,
           rv_comment = Some [], rv_updatedAt = Some 7, rv_likeCount = Some 1,
           rv_createdAt = Some 1\<rparr>"
  using
    saveMyReview_stored_review
      [where c = "page ''A'' (scores 5 4 3 2)" and tag = "''T''" and s = empty_store and now = 1]
    saveMyReview_stored_review
      [where c = "page ''A'' (scores 4 4 4 4)" and tag = "''T''" and s = liked_store and now = 7]
  by (simp add: liked_store_def ex_defs readers tx_defs newOverallOf_def Let_def)

section \<open>Reviews stored without an overall\<close>

text \<open>
  Claim C10.  When the stored review has no \<open>overall\<close> field, both the save and the
  delete take as its previous overall the mean of its stored sub-scores, a missing
  sub-score counting as 0, and apply the statistics delta with that value.
\<close>

theorem legacy_review_fallback_overall:
  assumes "selectedTag c = Some tag"
    and "tag \<noteq> []"
    and "reviews s (cinemaId c, tag, uid (user c)) = Some prev"
    and "rv_overall prev = None"
  shows "stored_count (saveMyReview c now s) (cinemaId c, tag) = Some (count_of s (cinemaId c, tag)) \<and>
         stored_sumOverall (saveMyReview c now s) (cinemaId c, tag) =
           Some (sumOverall_of s (cinemaId c, tag) +
                 (newOverallOf (myReview c) -
                  (number_or_0 (rv_screen prev) + number_or_0 (rv_picture prev) +
                   number_or_0 (rv_sound prev) + number_or_0 (rv_seat prev)) / 4)) \<and>
         stored_count (deleteMyReview c now s) (cinemaId c, tag) =
           Some (max 0 (count_of s (cinemaId c, tag) - 1)) \<and>
         stored_sumOverall (deleteMyReview c now s) (cinemaId c, tag) =
           Some (if max 0 (count_of s (cinemaId c, tag) - 1) = 0 then 0
                 else sumOverall_of s (cinemaId c, tag) -
                      (number_or_0 (rv_screen prev) + number_or_0 (rv_picture prev) +
                       number_or_0 (rv_sound prev) + number_or_0 (rv_seat prev)) / 4)"
  using assms
  by (simp add: tx_defs readers oldOverallOf_def Let_def split: option.splits)

theorem legacy_review_fallback_overall_witness:
  "selectedTag (page ''A'' (scores 3 4 4 5)) = Some ''T'' \<and>
   ''T'' \<noteq> [] \<and>
   reviews legacy_store (''S'', ''T'', ''A'') = Some legacy_review \<and>
   rv_overall legacy_review = None \<and>
   number_or_0 (rv_picture legacy_review) = 0 \<and>
   stored_sumOverall (saveMyReview (page ''A'' (scores 3 4 4 5)) 2 legacy_store) (''S'', ''T'') =
     Some (5 + (4 - 3 / 2)) \<and>
   stored_sumOverall (deleteMyReview (page ''A'' (scores 3 4 4 5)) 2 legacy_store) (''S'', ''T'') =
     Some (5 - 3 / 2)"
  using legacy_review_fallback_overall
      [where c = "page ''A'' (scores 3 4 4 5)" and tag = "''T''" and s = legacy_store
         and prev = legacy_review and now = 2]
  by (simp add: ex_defs legacy_store_def legacy_review_def readers newOverallOf_def
      number_or_0_def no_review_fields_def no_stats_fields_def)

section \<open>Toggling a like\<close>

text \<open>
  Claim C5.  When a tag is selected and no toggle of the review is in flight,
  \<open>toggleLike\<close> is one run of its transaction body: if the like record of
  (review, liker) exists it is deleted and the review's \<open>likeCount\<close> becomes
  \<open>max(0, likeCount - 1)\<close>; otherwise the record is created and \<open>likeCount\<close> becomes
  \<open>likeCount + 1\<close>.  Record and counter change in the same step, and no other document
  changes.
\<close>

theorem toggleLike_record_and_counter:
  assumes "selectedTag c = Some tag"
    and "tag \<noteq> []"
    and "\<not> likeBusy c reviewId"
  shows "(case likes s (cinemaId c, tag, reviewId, uid (user c)) of
            Some l \<Rightarrow>
              likes (toggleLike c reviewId now s) (cinemaId c, tag, reviewId, uid (user c)) = None \<and>
              stored_likeCount (toggleLike c reviewId now s) (cinemaId c, tag, reviewId) =
                Some (max 0 (likeCount_of s (cinemaId c, tag, reviewId) - 1))
          | None \<Rightarrow>
              likes (toggleLike c reviewId now s) (cinemaId c, tag, reviewId, uid (user c)) =
                Some \<lparr>lk_createdAt = Some now\<rparr> \<and>
              stored_likeCount (toggleLike c reviewId now s) (cinemaId c, tag, reviewId) =
                Some (likeCount_of s (cinemaId c, tag, reviewId) + 1)) \<and>
         toggleLike c reviewId now s = toggleLike_tx (cinemaId c) tag (user c) reviewId now s \<and>
         stats (toggleLike c reviewId now s) = stats s \<and>
         (\<forall>r. r \<noteq> (cinemaId c, tag, reviewId) \<longrightarrow> reviews (toggleLike c reviewId now s) r = reviews s r) \<and>
         (\<forall>l. l \<noteq> (cinemaId c, tag, reviewId, uid (user c)) \<longrightarrow>
              likes (toggleLike c reviewId now s) l = likes s l)"
  using assms
  by (simp add: tx_defs readers Let_def split: option.splits)

theorem toggleLike_record_and_counter_witness:
  "selectedTag (page ''B'' (scores 0 0 0 0)) = Some ''T'' \<and>
   ''T'' \<noteq> [] \<and>
   \<not> likeBusy (page ''B'' (scores 0 0 0 0)) ''A'' \<and>
   likes (saveMyReview (page ''A'' (scores 5 5 5 5)) 1 empty_store) (''S'', ''T'', ''A'', ''B'') = None \<and>
   likes liked_store (''S'', ''T'', ''A'', ''B'') = Some \<lparr>lk_createdAt = Some 2\<rparr> \<and>
   stored_likeCount liked_store (''S'', ''T'', ''A'') = Some 1 \<and>
   likes (toggleLike (page ''B'' (scores 0 0 0 0)) ''A'' 3 liked_store) (''S'', ''T'', ''A'', ''B'') = None \<and>
   stored_likeCount (toggleLike (page ''B'' (scores 0 0 0 0)) ''A'' 3 liked_store) (''S'', ''T'', ''A'') = Some 0"
  using
    toggleLike_record_and_counter
      [where c = "page ''B'' (scores 0 0 0 0)" and tag = "''T''" and reviewId = "''A''" and now = 2
         and s = "saveMyReview (page ''A'' (scores 5 5 5 5)) 1 empty_store"]
    toggleLike_record_and_counter
      [where c = "page ''B'' (scores 0 0 0 0)" and tag = "''T''" and reviewId = "''A''" and now = 3
         and s = liked_store]
  by (simp add: liked_store_def ex_defs readers tx_defs Let_def)

section \<open>What a save rejects\<close>

text \<open>
  Claim C2, as stated, fails: \<open>saveMyReview\<close> has no check of the sub-scores.  With
  the form holding \<open>screen = 7\<close>, a save on the empty store writes the review with
  overall \<open>7 / 4\<close> and the stats document with count 1.
\<close>

theorem saveMyReview_unvalidated_counterexample:
  "\<not> spec_valid_score (screen (myReview (page ''A'' (scores 7 0 0 0)))) \<and>
   reviews empty_store (''S'', ''T'', ''A'') = None \<and>
   stats empty_store (''S'', ''T'') = None \<and>
   stored_overall (saveMyReview (page ''A'' (scores 7 0 0 0)) 1 empty_store) (''S'', ''T'', ''A'') =
     Some (7 / 4) \<and>
   stored_count (saveMyReview (page ''A'' (scores 7 0 0 0)) 1 empty_store) (''S'', ''T'') = Some 1 \<and>
   stored_sumOverall (saveMyReview (page ''A'' (scores 7 0 0 0)) 1 empty_store) (''S'', ''T'') =
     Some (7 / 4) \<and>
   saveMyReview (page ''A'' (scores 7 0 0 0)) 1 empty_store \<noteq> empty_store"
proof -
  have before: "stats empty_store (''S'', ''T'') = None"
    by (simp add: empty_store_def)
  have after: "stored_count (saveMyReview (page ''A'' (scores 7 0 0 0)) 1 empty_store)
      (''S'', ''T'') = Some 1"
    by (simp add: ex_defs readers tx_defs Let_def)
  from before after
  have "saveMyReview (page ''A'' (scores 7 0 0 0)) 1 empty_store \<noteq> empty_store"
    by (auto simp add: stored_count_def)
  then show ?thesis
    by (simp add: spec_valid_score_def ex_defs readers tx_defs newOverallOf_def Let_def)
qed

text \<open>
  Claim C2, amended.  A call with no tag selected (\<open>selectedTag\<close> is \<open>null\<close> or
  empty) leaves the store unchanged.  A call with a tag selected is one run of the
  transaction body, whatever the sub-scores are: the review document then holds the four
  submitted sub-scores as they are, their mean as \<open>overall\<close> and the time of the call as
  \<open>updatedAt\<close>, and the stats document holds the count and sum of the create or update
  delta and the time of the call as \<open>updatedAt\<close>.
\<close>

theorem saveMyReview_writes_unvalidated_scores:
  "case selectedTag c of
     None \<Rightarrow> saveMyReview c now s = s
   | Some tag \<Rightarrow>
       if tag = [] then saveMyReview c now s = s
       else
         saveMyReview c now s =
           saveMyReview_tx (cinemaId c) tag (user c) (myReview c) now s \<and>
         (\<exists>d. reviews (saveMyReview c now s) (cinemaId c, tag, uid (user c)) = Some d \<and>
              rv_screen d = Some (screen (myReview c)) \<and>
              rv_picture d = Some (picture (myReview c)) \<and>
              rv_sound d = Some (sound (myReview c)) \<and>
              rv_seat d = Some (seat (myReview c)) \<and>
              rv_overall d =
                Some ((screen (myReview c) + picture (myReview c) + sound (myReview c) +
                       seat (myReview c)) / 4) \<and>
              rv_updatedAt d = Some now) \<and>
         (\<exists>t. stats (saveMyReview c now s) (cinemaId c, tag) = Some t \<and>
              st_count t =
                Some (case reviews s (cinemaId c, tag, uid (user c)) of
                        None \<Rightarrow> count_of s (cinemaId c, tag) + 1
                      | Some prev \<Rightarrow> count_of s (cinemaId c, tag)) \<and>
              st_sumOverall t =
                Some (case reviews s (cinemaId c, tag, uid (user c)) of
                        None \<Rightarrow>
                          sumOverall_of s (cinemaId c, tag) +
                          (screen (myReview c) + picture (myReview c) + sound (myReview c) +
                           seat (myReview c)) / 4
                      | Some prev \<Rightarrow>
                          sumOverall_of s (cinemaId c, tag) +
                          ((screen (myReview c) + picture (myReview c) + sound (myReview c) +
                            seat (myReview c)) / 4 -
                           (case rv_overall prev of
                              Some old \<Rightarrow> old
                            | None \<Rightarrow>
                                (number_or_0 (rv_screen prev) + number_or_0 (rv_picture prev) +
                                 number_or_0 (rv_sound prev) + number_or_0 (rv_seat prev)) / 4))) \<and>
              st_updatedAt t = Some now)"
  by (simp add: tx_defs readers newOverallOf_def oldOverallOf_def Let_def split: option.splits)

theorem saveMyReview_writes_unvalidated_scores_witness:
  "\<not> spec_valid_score 7 \<and>
   saveMyReview ((page ''A'' (scores 7 0 0 0))\<lparr>selectedTag := None\<rparr>) 9 liked_store = liked_store \<and>
   saveMyReview ((page ''A'' (scores 7 0 0 0))\<lparr>selectedTag := Some []\<rparr>) 9 liked_store = liked_store \<and>
   stored_overall liked_store (''S'', ''T'', ''A'') = Some 5 \<and>
   stored_sumOverall liked_store (''S'', ''T'') = Some 5 \<and>
   (\<exists>d. reviews (saveMyReview (page ''A'' (scores 7 0 0 0)) 9 liked_store) (''S'', ''T'', ''A'') = Some d \<and>
        rv_screen d = Some 7 \<and> rv_overall d = Some (7 / 4) \<and> rv_updatedAt d = Some 9) \<and>
   (\<exists>t. stats (saveMyReview (page ''A'' (scores 7 0 0 0)) 9 liked_store) (''S'', ''T'') = Some t \<and>
        st_count t = Some 1 \<and> st_sumOverall t = Some (7 / 4) \<and> st_updatedAt t = Some 9)"
proof -
  have liked:
    "reviews liked_store (''S'', ''T'', ''A'') =
       Some \<lparr>rv_userId = Some ''A'', rv_displayName = Some [], rv_screen = Some 5,
             rv_picture = Some 5, rv_sound = Some 5, rv_seat = Some 5, rv_overall = Some 5,
             rv_comment = Some [], rv_updatedAt = Some 1, rv_likeCount = Some 1,
             rv_createdAt = Some 1\<rparr>"
    "stats liked_store (''S'', ''T'') =
       Some \<lparr>st_count = Some 1, st_sumOverall = Some 5, st_avgOverall = Some 5,
             st_updatedAt = Some 1\<rparr>"
    by (simp_all add: liked_store_def ex_defs tx_defs newOverallOf_def average_def Let_def)
  show ?thesis
    using liked
      saveMyReview_writes_unvalidated_scores
        [where c = "(page ''A'' (scores 7 0 0 0))\<lparr>selectedTag := None\<rparr>" and now = 9
           and s = liked_store]
      saveMyReview_writes_unvalidated_scores
        [where c = "(page ''A'' (scores 7 0 0 0))\<lparr>selectedTag := Some []\<rparr>" and now = 9
           and s = liked_store]
      saveMyReview_writes_unvalidated_scores
        [where c = "page ''A'' (scores 7 0 0 0)" and now = 9 and s = liked_store]
    by (auto simp add: ex_defs readers spec_valid_score_def)
qed

section \<open>Operations on a review that does not exist\<close>

text \<open>
  Deleting a review that does not exist leaves the whole store as it was: the
  transaction returns when the review document is absent.  \<open>toggleLike\<close> has no such
  return: on a review that does not exist it writes a review document that holds nothing
  but \<open>likeCount\<close>.
\<close>

lemma deleteMyReview_missing_review_noop:
  "selectedTag c = Some tag \<Longrightarrow> reviews s (cinemaId c, tag, uid (user c)) = None \<Longrightarrow>
     deleteMyReview c now s = s"
  by (simp add: deleteMyReview_def deleteMyReview_tx_def)

lemma toggleLike_missing_review_writes:
  assumes "selectedTag c = Some tag"
    and "tag \<noteq> []"
    and "\<not> likeBusy c reviewId"
    and "reviews s (cinemaId c, tag, reviewId) = None"
  shows "reviews (toggleLike c reviewId now s) (cinemaId c, tag, reviewId) =
           Some (no_review_fields
                  \<lparr>rv_likeCount :=
                     Some (case likes s (cinemaId c, tag, reviewId, uid (user c)) of
                             None \<Rightarrow> 1
                           | Some l \<Rightarrow> 0)\<rparr>)"
  using assms
  by (simp add: tx_defs Let_def split: option.splits)

text \<open>
  Claim C6 does not hold of \<open>toggleLike\<close>.  After \<open>A\<close> deleted the review that \<open>B\<close>
  had liked, the review is gone and \<open>B\<close>'s like record is still there.  \<open>B\<close>'s toggle
  then changes the store: it deletes the record and writes, under \<open>A\<close>'s key, a review
  document that holds only \<open>likeCount = 0\<close>; \<open>A\<close>'s delete in the same store changes
  nothing.  \<open>A\<close>'s next save finds that document, takes the update path and leaves the
  count at 0 beside a stored review with overall 4; without the toggle the same save
  writes count 1.
\<close>

theorem toggleLike_missing_review_writes_stub:
  "reviews orphan_like_store (''S'', ''T'', ''A'') = None \<and>
   likes orphan_like_store (''S'', ''T'', ''A'', ''B'') = Some \<lparr>lk_createdAt = Some 2\<rparr> \<and>
   stub_store \<noteq> orphan_like_store \<and>
   reviews stub_store (''S'', ''T'', ''A'') = Some (no_review_fields\<lparr>rv_likeCount := Some 0\<rparr>) \<and>
   likes stub_store (''S'', ''T'', ''A'', ''B'') = None \<and>
   deleteMyReview (page ''A'' (scores 0 0 0 0)) 4 orphan_like_store = orphan_like_store \<and>
   count_of (saveMyReview (page ''A'' (scores 4 4 4 4)) 5 stub_store) (''S'', ''T'') = 0 \<and>
   stored_overall (saveMyReview (page ''A'' (scores 4 4 4 4)) 5 stub_store) (''S'', ''T'', ''A'') =
     Some 4 \<and>
   count_of (saveMyReview (page ''A'' (scores 4 4 4 4)) 5 orphan_like_store) (''S'', ''T'') = 1"
proof -
  have r: "reviews orphan_like_store (''S'', ''T'', ''A'') = None"
    by (simp add: orphan_like_store_def liked_store_def ex_defs tx_defs Let_def)
  have l: "likes orphan_like_store (''S'', ''T'', ''A'', ''B'') = Some \<lparr>lk_createdAt = Some 2\<rparr>"
    by (simp add: orphan_like_store_def liked_store_def ex_defs tx_defs Let_def)
  have st: "stats orphan_like_store (''S'', ''T'') =
      Some \<lparr>st_count = Some 0, st_sumOverall = Some 0, st_avgOverall = Some 0,
            st_updatedAt = Some 3\<rparr>"
    by (simp add: orphan_like_store_def liked_store_def ex_defs tx_defs newOverallOf_def
        oldOverallOf_def average_def Let_def)
  have r': "reviews stub_store (''S'', ''T'', ''A'') =
      Some (no_review_fields\<lparr>rv_likeCount := Some 0\<rparr>)"
    using r l by (simp add: stub_store_def ex_defs tx_defs Let_def)
  have l': "likes stub_store (''S'', ''T'', ''A'', ''B'') = None"
    using r l by (simp add: stub_store_def ex_defs tx_defs Let_def)
  have st': "stats stub_store (''S'', ''T'') = stats orphan_like_store (''S'', ''T'')"
    using r l by (simp add: stub_store_def ex_defs tx_defs Let_def)
  from r r' have ne: "stub_store \<noteq> orphan_like_store"
    by auto
  have d: "deleteMyReview (page ''A'' (scores 0 0 0 0)) 4 orphan_like_store = orphan_like_store"
    using r by (simp add: ex_defs deleteMyReview_def deleteMyReview_tx_def)
  have c1: "count_of (saveMyReview (page ''A'' (scores 4 4 4 4)) 5 stub_store) (''S'', ''T'') = 0"
    using r' st' st by (simp add: ex_defs readers tx_defs Let_def)
  have o1: "stored_overall (saveMyReview (page ''A'' (scores 4 4 4 4)) 5 stub_store)
      (''S'', ''T'', ''A'') = Some 4"
    using r' by (simp add: ex_defs readers tx_defs newOverallOf_def Let_def)
  have c2: "count_of (saveMyReview (page ''A'' (scores 4 4 4 4)) 5 orphan_like_store)
      (''S'', ''T'') = 1"
    using r st by (simp add: ex_defs readers tx_defs Let_def)
  from r l ne r' l' d c1 o1 c2 show ?thesis by simp
qed

section \<open>Toggling a like twice\<close>

text \<open>
  Claim C8, as stated, fails.  When the liker's record exists at the start, two toggles
  delete it and create it again, so a record is left; in the store where \<open>A\<close>'s new
  review (\<open>likeCount\<close> 0) stands beside \<open>B\<close>'s old record, \<open>B\<close>'s two toggles also
  move \<open>likeCount\<close> from 0 to 1.  A stored negative \<open>likeCount\<close> ends at 0.
\<close>

theorem toggleLike_twice_counterexample:
  "likeCount_of recreated_store (''S'', ''T'', ''A'') = 0 \<and>
   likeCount_of
     (toggleLike (page ''B'' (scores 0 0 0 0)) ''A'' 6
        (toggleLike (page ''B'' (scores 0 0 0 0)) ''A'' 5 recreated_store)) (''S'', ''T'', ''A'') = 1 \<and>
   likes
     (toggleLike (page ''B'' (scores 0 0 0 0)) ''A'' 6
        (toggleLike (page ''B'' (scores 0 0 0 0)) ''A'' 5 recreated_store)) (''S'', ''T'', ''A'', ''B'') \<noteq> None \<and>
   likeCount_of negative_like_store (''S'', ''T'', ''A'') = - 1 \<and>
   likeCount_of
     (toggleLike (page ''B'' (scores 0 0 0 0)) ''A'' 6
        (toggleLike (page ''B'' (scores 0 0 0 0)) ''A'' 5 negative_like_store)) (''S'', ''T'', ''A'') = 0"
  by (simp add: recreated_store_def negative_like_store_def orphan_like_store_def
      liked_store_def ex_defs readers tx_defs Let_def)

text \<open>
  Claim C8, amended.  From a state in which the liker has no like record for the review and
  the review's \<open>likeCount\<close> (0 when absent) is not negative, two toggles by the same
  liker return \<open>likeCount\<close> to its original value and leave no like record.
\<close>

theorem toggleLike_twice_from_unliked:
  assumes "selectedTag c = Some tag"
    and "tag \<noteq> []"
    and "\<not> likeBusy c reviewId"
    and "likes s (cinemaId c, tag, reviewId, uid (user c)) = None"
    and "0 \<le> likeCount_of s (cinemaId c, tag, reviewId)"
  shows "likeCount_of (toggleLike c reviewId t2 (toggleLike c reviewId t1 s)) (cinemaId c, tag, reviewId) =
           likeCount_of s (cinemaId c, tag, reviewId) \<and>
         likes (toggleLike c reviewId t2 (toggleLike c reviewId t1 s))
           (cinemaId c, tag, reviewId, uid (user c)) = None"
  using assms
  by (simp add: tx_defs readers Let_def split: option.splits)

theorem toggleLike_twice_from_unliked_witness:
  "selectedTag (page ''C'' (scores 0 0 0 0)) = Some ''T'' \<and>
   ''T'' \<noteq> [] \<and>
   \<not> likeBusy (page ''C'' (scores 0 0 0 0)) ''A'' \<and>
   likes liked_store (''S'', ''T'', ''A'', ''C'') = None \<and>
   likeCount_of liked_store (''S'', ''T'', ''A'') = 1 \<and>
   likeCount_of
     (toggleLike (page ''C'' (scores 0 0 0 0)) ''A'' 6
        (toggleLike (page ''C'' (scores 0 0 0 0)) ''A'' 5 liked_store)) (''S'', ''T'', ''A'') = 1 \<and>
   likes
     (toggleLike (page ''C'' (scores 0 0 0 0)) ''A'' 6
        (toggleLike (page ''C'' (scores 0 0 0 0)) ''A'' 5 liked_store)) (''S'', ''T'', ''A'', ''C'') = None"
proof -
  have l: "likes liked_store (''S'', ''T'', ''A'', ''C'') = None"
    by (simp add: orphan_like_store_def liked_store_def ex_defs tx_defs Let_def)
  have n: "likeCount_of liked_store (''S'', ''T'', ''A'') = 1"
    by (simp add: orphan_like_store_def liked_store_def ex_defs readers tx_defs Let_def)
  show ?thesis
    using l n toggleLike_twice_from_unliked
      [where c = "page ''C'' (scores 0 0 0 0)" and tag = "''T''" and s = liked_store
         and reviewId = "''A''" and ?t1.0 = 5 and ?t2.0 = 6]
    by (simp add: ex_defs)
qed

section \<open>Counters never go below zero\<close>

lemma likeCount_apply_op: "0 \<le> likeCount_of s r \<Longrightarrow> 0 \<le> likeCount_of (apply_op x s) r"
  by (cases x) (auto simp add: tx_defs readers Let_def split: option.splits)

lemma count_apply_op: "0 \<le> count_of s k \<Longrightarrow> 0 \<le> count_of (apply_op x s) k"
  by (cases x) (auto simp add: tx_defs readers Let_def split: option.splits)

lemma counters_nonneg_apply_op: "counters_nonneg s \<Longrightarrow> counters_nonneg (apply_op x s)"
  by (simp add: counters_nonneg_def likeCount_apply_op count_apply_op)

lemma counters_nonneg_run: "counters_nonneg s \<Longrightarrow> counters_nonneg (run ops s)"
  by (induction ops arbitrary: s) (simp_all add: counters_nonneg_apply_op)

text \<open>
  Claim C9.  In the empty store every \<open>likeCount\<close> and every \<open>count\<close> reads as at
  least 0, and any sequence of saves, deletes and like toggles, by any users on any keys
  and in any order, run from a store where they are at least 0 ends in a store where they
  are at least 0.  As the sequence is arbitrary this holds after each of its operations.
\<close>

theorem counters_never_negative:
  "counters_nonneg empty_store \<and> (counters_nonneg s \<longrightarrow> counters_nonneg (run ops s))"
  by (simp add: counters_nonneg_run) (simp add: counters_nonneg_def readers empty_store_def)

theorem counters_never_negative_witness:
  "counters_nonneg empty_store \<and> counters_nonneg (run restless_ops empty_store) \<and>
   0 \<le> likeCount_of (run restless_ops empty_store) (''S'', ''T'', ''A'') \<and>
   0 \<le> count_of (run restless_ops empty_store) (''S'', ''T'')"
proof -
  have h: "counters_nonneg empty_store"
    using counters_never_negative [of empty_store "[]"] by simp
  have "counters_nonneg (run restless_ops empty_store)"
    using h counters_never_negative [of empty_store restless_ops] by simp
  with h show ?thesis by (simp add: counters_nonneg_def)
qed

section \<open>The aggregate follows the live reviews\<close>

lemma live_save_tx:
  "live_authors (saveMyReview_tx cid tag usr f now s) cid tag = insert (uid usr) (live_authors s cid tag)"
  by (auto simp add: live_authors_def tx_defs Let_def split: option.splits)

lemma live_delete_tx:
  "live_authors (deleteMyReview_tx cid tag usr now s) cid tag = live_authors s cid tag - {uid usr}"
  by (auto simp add: live_authors_def tx_defs Let_def split: option.splits)

lemma overall_save_tx:
  "overall_of (saveMyReview_tx cid tag usr f now s) (cid, tag, v) =
     (if v = uid usr then newOverallOf f else overall_of s (cid, tag, v))"
  by (simp add: tx_defs readers overall_of_def avgOverall_of_def Let_def split: option.splits)

lemma overall_delete_tx:
  "v \<noteq> uid usr \<Longrightarrow>
     overall_of (deleteMyReview_tx cid tag usr now s) (cid, tag, v) = overall_of s (cid, tag, v)"
  by (simp add: tx_defs readers overall_of_def avgOverall_of_def Let_def split: option.splits)

lemma overall_stored_save_tx:
  "overall_stored s cid tag \<Longrightarrow> overall_stored (saveMyReview_tx cid tag usr f now s) cid tag"
  by (auto simp add: overall_stored_def tx_defs Let_def split: option.splits)

lemma overall_stored_delete_tx:
  "overall_stored s cid tag \<Longrightarrow> overall_stored (deleteMyReview_tx cid tag usr now s) cid tag"
  by (auto simp add: overall_stored_def tx_defs Let_def split: option.splits)

lemma old_overall_is_stored:
  "overall_stored s cid tag \<Longrightarrow> reviews s (cid, tag, u) = Some prev \<Longrightarrow>
     oldOverallOf prev = overall_of s (cid, tag, u)"
proof -
  assume "overall_stored s cid tag" and prev: "reviews s (cid, tag, u) = Some prev"
  then obtain y where "rv_overall prev = Some y"
    by (auto simp add: overall_stored_def)
  with prev show ?thesis
    by (simp add: oldOverallOf_def readers overall_of_def avgOverall_of_def)
qed

lemma count_save_tx:
  "count_of (saveMyReview_tx cid tag usr f now s) (cid, tag) =
     (if reviews s (cid, tag, uid usr) = None then count_of s (cid, tag) + 1
      else count_of s (cid, tag))"
  by (simp add: tx_defs readers overall_of_def avgOverall_of_def Let_def split: option.splits)

lemma sum_save_tx:
  "sumOverall_of (saveMyReview_tx cid tag usr f now s) (cid, tag) =
     (case reviews s (cid, tag, uid usr) of
        None \<Rightarrow> sumOverall_of s (cid, tag) + newOverallOf f
      | Some prev \<Rightarrow> sumOverall_of s (cid, tag) + (newOverallOf f - oldOverallOf prev))"
  by (simp add: tx_defs readers overall_of_def avgOverall_of_def Let_def split: option.splits)

lemma avg_save_tx:
  "avgOverall_of (saveMyReview_tx cid tag usr f now s) (cid, tag) =
     average (count_of (saveMyReview_tx cid tag usr f now s) (cid, tag))
       (sumOverall_of (saveMyReview_tx cid tag usr f now s) (cid, tag))"
  by (simp add: tx_defs readers overall_of_def avgOverall_of_def Let_def split: option.splits)

lemma count_delete_tx:
  "reviews s (cid, tag, uid usr) = Some prev \<Longrightarrow>
   count_of (deleteMyReview_tx cid tag usr now s) (cid, tag) = max 0 (count_of s (cid, tag) - 1)"
  by (simp add: tx_defs readers overall_of_def avgOverall_of_def Let_def split: option.splits)

lemma sum_delete_tx:
  "reviews s (cid, tag, uid usr) = Some prev \<Longrightarrow>
   sumOverall_of (deleteMyReview_tx cid tag usr now s) (cid, tag) =
     (if max 0 (count_of s (cid, tag) - 1) = 0 then 0
      else sumOverall_of s (cid, tag) - oldOverallOf prev)"
  by (simp add: tx_defs readers overall_of_def avgOverall_of_def Let_def max_def split: option.splits)

lemma avg_delete_tx:
  "reviews s (cid, tag, uid usr) = Some prev \<Longrightarrow>
   avgOverall_of (deleteMyReview_tx cid tag usr now s) (cid, tag) =
     average (count_of (deleteMyReview_tx cid tag usr now s) (cid, tag))
       (sumOverall_of (deleteMyReview_tx cid tag usr now s) (cid, tag))"
  by (simp add: tx_defs readers overall_of_def avgOverall_of_def Let_def split: option.splits)

lemma delete_tx_missing:
  "reviews s (cid, tag, uid usr) = None \<Longrightarrow> deleteMyReview_tx cid tag usr now s = s"
  by (simp add: deleteMyReview_tx_def)

lemma aggregate_save_tx:
  assumes a: "aggregate_consistent s cid tag" and o: "overall_stored s cid tag"
  shows "aggregate_consistent (saveMyReview_tx cid tag usr f now s) cid tag"
proof -
  let ?s' = "saveMyReview_tx cid tag usr f now s"
  let ?L = "live_authors s cid tag"
  let ?u = "uid usr"
  from a have fin: "finite ?L"
    and cnt: "count_of s (cid, tag) = int (card ?L)"
    and sm: "sumOverall_of s (cid, tag) = (\<Sum>u\<in>?L. overall_of s (cid, tag, u))"
    by (simp_all add: aggregate_consistent_def)
  have others: "(\<Sum>v\<in>?L - {?u}. overall_of ?s' (cid, tag, v)) = (\<Sum>v\<in>?L - {?u}. overall_of s (cid, tag, v))"
    by (rule sum.cong) (simp_all add: overall_save_tx)
  have new_sum: "(\<Sum>v\<in>insert ?u ?L. overall_of ?s' (cid, tag, v)) =
      newOverallOf f + (\<Sum>v\<in>?L - {?u}. overall_of s (cid, tag, v))"
    using fin others by (simp add: sum.insert_remove overall_save_tx)
  have cnt': "count_of ?s' (cid, tag) = int (card (insert ?u ?L))"
  proof (cases "reviews s (cid, tag, ?u)")
    case None
    then have "?u \<notin> ?L" by (simp add: live_authors_def)
    with fin cnt None show ?thesis by (simp add: count_save_tx)
  next
    case (Some prev)
    then have "?u \<in> ?L" by (simp add: live_authors_def)
    with cnt Some show ?thesis by (simp add: count_save_tx insert_absorb)
  qed
  have sm': "sumOverall_of ?s' (cid, tag) = (\<Sum>v\<in>insert ?u ?L. overall_of ?s' (cid, tag, v))"
  proof (cases "reviews s (cid, tag, ?u)")
    case None
    then have "?u \<notin> ?L" by (simp add: live_authors_def)
    with sm None new_sum show ?thesis by (simp add: sum_save_tx)
  next
    case (Some prev)
    then have mem: "?u \<in> ?L" by (simp add: live_authors_def)
    have "(\<Sum>v\<in>?L. overall_of s (cid, tag, v)) =
        overall_of s (cid, tag, ?u) + (\<Sum>v\<in>?L - {?u}. overall_of s (cid, tag, v))"
      using fin mem by (rule sum.remove)
    with sm Some new_sum old_overall_is_stored [OF o Some] show ?thesis
      by (simp add: sum_save_tx)
  qed
  show ?thesis
    using fin cnt' sm'
    by (simp add: aggregate_consistent_def live_save_tx avg_save_tx average_def)
qed

lemma aggregate_delete_tx:
  assumes a: "aggregate_consistent s cid tag" and o: "overall_stored s cid tag"
  shows "aggregate_consistent (deleteMyReview_tx cid tag usr now s) cid tag"
proof (cases "reviews s (cid, tag, uid usr)")
  case None
  with a show ?thesis by (simp add: delete_tx_missing)
next
  case (Some prev)
  let ?s' = "deleteMyReview_tx cid tag usr now s"
  let ?L = "live_authors s cid tag"
  let ?u = "uid usr"
  from a have fin: "finite ?L"
    and cnt: "count_of s (cid, tag) = int (card ?L)"
    and sm: "sumOverall_of s (cid, tag) = (\<Sum>u\<in>?L. overall_of s (cid, tag, u))"
    by (simp_all add: aggregate_consistent_def)
  from Some have mem: "?u \<in> ?L" by (simp add: live_authors_def)
  with fin have pos: "0 < card ?L" by (auto simp add: card_gt_0_iff)
  have others: "(\<Sum>v\<in>?L - {?u}. overall_of ?s' (cid, tag, v)) = (\<Sum>v\<in>?L - {?u}. overall_of s (cid, tag, v))"
    by (rule sum.cong) (simp_all add: overall_delete_tx)
  have split_sum: "(\<Sum>v\<in>?L. overall_of s (cid, tag, v)) =
      overall_of s (cid, tag, ?u) + (\<Sum>v\<in>?L - {?u}. overall_of s (cid, tag, v))"
    using fin mem by (rule sum.remove)
  have cnt': "count_of ?s' (cid, tag) = int (card (?L - {?u}))"
    using fin mem pos cnt Some by (simp add: count_delete_tx)
  have sm': "sumOverall_of ?s' (cid, tag) = (\<Sum>v\<in>?L - {?u}. overall_of ?s' (cid, tag, v))"
  proof (cases "card ?L = 1")
    case True
    with fin mem have e: "?L - {?u} = {}"
      by (metis card_1_singletonE Diff_cancel singletonD)
    have "sumOverall_of ?s' (cid, tag) = 0"
      using True cnt Some by (simp add: sum_delete_tx)
    moreover have "(\<Sum>v\<in>?L - {?u}. overall_of ?s' (cid, tag, v)) = 0"
      by (simp only: e sum.empty)
    ultimately show ?thesis by simp
  next
    case False
    with pos have "1 < card ?L" by simp
    with cnt Some sm split_sum others old_overall_is_stored [OF o Some] show ?thesis
      by (simp add: sum_delete_tx)
  qed
  show ?thesis
    using fin cnt' sm' Some
    by (simp add: aggregate_consistent_def live_delete_tx avg_delete_tx average_def)
qed

lemma aggregate_apply_op:
  assumes "review_op_under cid tag x"
    and "aggregate_consistent s cid tag \<and> overall_stored s cid tag"
  shows "aggregate_consistent (apply_op x s) cid tag \<and> overall_stored (apply_op x s) cid tag"
  using assms
  by (cases x)
    (auto simp add: saveMyReview_def deleteMyReview_def aggregate_save_tx aggregate_delete_tx
      overall_stored_save_tx overall_stored_delete_tx)

lemma aggregate_run:
  assumes "\<forall>x\<in>set ops. review_op_under cid tag x"
    and "aggregate_consistent s cid tag \<and> overall_stored s cid tag"
  shows "aggregate_consistent (run ops s) cid tag \<and> overall_stored (run ops s) cid tag"
  using assms
proof (induction ops arbitrary: s)
  case Nil
  then show ?case by simp
next
  case (Cons x xs)
  from Cons.prems have "aggregate_consistent (apply_op x s) cid tag \<and> overall_stored (apply_op x s) cid tag"
    by (simp add: aggregate_apply_op)
  with Cons.prems Cons.IH [of "apply_op x s"] show ?case by simp
qed

lemma aggregate_empty_store:
  "aggregate_consistent empty_store cid tag \<and> overall_stored empty_store cid tag"
  by (simp add: aggregate_consistent_def overall_stored_def live_authors_def readers overall_of_def avgOverall_of_def empty_store_def)

text \<open>
  Claim C1.  Start from the empty store and run any sequence of saves and deletes made with
  one cinema and tag selected.  After each operation the count (0 when there is no stats
  document) is the number of reviews then stored under the key, the sum is the sum of
  their stored overall values, exactly and so within \<open>1e-9\<close>, and the average is
  \<open>sumOverall / count\<close>, or 0 when the count is 0.  Numbers are exact reals here.
\<close>

theorem aggregate_tracks_live_reviews:
  assumes "\<forall>x\<in>set ops. review_op_under cid tag x"
  shows "\<forall>n\<le>length ops. aggregate_consistent (run (take n ops) empty_store) cid tag"
proof (intro allI impI)
  fix n assume "n \<le> length ops"
  have "\<forall>x\<in>set (take n ops). review_op_under cid tag x"
    using assms by (meson in_set_takeD)
  then show "aggregate_consistent (run (take n ops) empty_store) cid tag"
    using aggregate_run aggregate_empty_store by blast
qed

theorem aggregate_tracks_live_reviews_witness:
  "list_all (review_op_under ''S'' ''T'') aggregate_lifecycle \<and>
   aggregate_consistent (run aggregate_lifecycle empty_store) ''S'' ''T'' \<and>
   count_of (run (take 2 aggregate_lifecycle) empty_store) (''S'', ''T'') = 2 \<and>
   sumOverall_of (run (take 2 aggregate_lifecycle) empty_store) (''S'', ''T'') = 5 \<and>
   avgOverall_of (run (take 2 aggregate_lifecycle) empty_store) (''S'', ''T'') = 5 / 2 \<and>
   count_of (run aggregate_lifecycle empty_store) (''S'', ''T'') = 1 \<and>
   sumOverall_of (run aggregate_lifecycle empty_store) (''S'', ''T'') = 4 \<and>
   avgOverall_of (run aggregate_lifecycle empty_store) (''S'', ''T'') = 4 \<and>
   card (live_authors (run aggregate_lifecycle empty_store) ''S'' ''T'') = 1"
proof -
  have h: "\<forall>x\<in>set aggregate_lifecycle. review_op_under ''S'' ''T'' x"
    by (simp add: aggregate_lifecycle_def page_def)
  have len: "length aggregate_lifecycle = 4"
    by (simp add: aggregate_lifecycle_def)
  have a: "aggregate_consistent (run aggregate_lifecycle empty_store) ''S'' ''T''"
    using aggregate_tracks_live_reviews [OF h, rule_format, of 4] len by simp
  have mid:
    "count_of (run (take 2 aggregate_lifecycle) empty_store) (''S'', ''T'') = 2"
    "sumOverall_of (run (take 2 aggregate_lifecycle) empty_store) (''S'', ''T'') = 5"
    "avgOverall_of (run (take 2 aggregate_lifecycle) empty_store) (''S'', ''T'') = 5 / 2"
    by (simp_all add: aggregate_lifecycle_def ex_defs readers overall_of_def avgOverall_of_def tx_defs average_def
        newOverallOf_def oldOverallOf_def Let_def)
  have fin:
    "count_of (run aggregate_lifecycle empty_store) (''S'', ''T'') = 1"
    "sumOverall_of (run aggregate_lifecycle empty_store) (''S'', ''T'') = 4"
    "avgOverall_of (run aggregate_lifecycle empty_store) (''S'', ''T'') = 4"
    by (simp_all add: aggregate_lifecycle_def ex_defs readers overall_of_def avgOverall_of_def tx_defs average_def
        newOverallOf_def oldOverallOf_def Let_def)
  from a fin(1) have "card (live_authors (run aggregate_lifecycle empty_store) ''S'' ''T'') = 1"
    by (simp add: aggregate_consistent_def)
  with h a mid fin show ?thesis by (simp add: list_all_iff)
qed

end
